theory Spec2Isabelle
  imports Complex_Main
begin

section \<open>Forecast simulation engine of the air-quality dashboard (app.py)\<close>

text \<open>
  The embedding follows \<^verbatim>\<open>src/app.py\<close>. Python floats are modelled as HOL reals, so the
  arithmetic below is the exact arithmetic that the floating-point code approximates.
  A number input of the dashboard that the user has cleared arrives as \<^verbatim>\<open>None\<close>; such an
  input is a \<open>real option\<close>. An exception is a value of \<open>py_error\<close>, and a function that can
  raise returns \<open>py_error + 'a\<close> with \<open>Inl\<close> for the exception.
\<close>

subsection \<open>Exceptions and numpy helpers\<close>

datatype py_error =
  TypeError | ValueError | OverflowError | KeyError | ZeroDivisionError | PredictError

text \<open>
  \<^verbatim>\<open>np.mean(xs)\<close> on a Python list: a \<^verbatim>\<open>None\<close> element makes numpy raise a TypeError.
  The lists in app.py are literals of 3, 4 or 5 elements, so the empty list never occurs.
\<close>

definition np_mean :: "real option list \<Rightarrow> py_error + real" where
  "np_mean xs =
     (case those xs of
        None \<Rightarrow> Inl TypeError
      | Some vs \<Rightarrow> Inr (sum_list vs / real (length vs)))"

text \<open>\<^verbatim>\<open>np.average(xs, weights=ws)\<close>: the weighted sum divided by the sum of the weights.\<close>

definition np_average :: "real option list \<Rightarrow> real list \<Rightarrow> py_error + real" where
  "np_average xs weights =
     (case those xs of
        None \<Rightarrow> Inl TypeError
      | Some vs \<Rightarrow>
          if sum_list weights = 0 then Inl ZeroDivisionError
          else Inr (sum_list (map2 (*) vs weights) / sum_list weights))"

subsection \<open>Rounding and two-decimal formatting\<close>

text \<open>Rounding to the nearest integer, a tie going to the even neighbour.\<close>

definition round_half_even :: "real \<Rightarrow> int" where
  "round_half_even r =
     (let f = \<lfloor>r\<rfloor>; d = r - of_int f
      in if d < 1/2 then f
         else if 1/2 < d then f + 1
         else if even f then f else f + 1)"

text \<open>\<^verbatim>\<open>round(x, 2)\<close>.\<close>

definition py_round2 :: "real \<Rightarrow> real" where
  "py_round2 x = of_int (round_half_even (x * 100)) / 100"

definition digit_char :: "nat \<Rightarrow> char" where
  "digit_char d = ''0123456789'' ! d"

fun str_nat :: "nat \<Rightarrow> string" where
  "str_nat n =
     (if n < 10 then [digit_char n] else str_nat (n div 10) @ [digit_char (n mod 10)])"

text \<open>The f-string \<^verbatim>\<open>f"{x:.2f}"\<close>.\<close>

definition format_2f :: "real \<Rightarrow> string" where
  "format_2f x =
     (let n = nat (round_half_even (\<bar>x\<bar> * 100))
      in (if x < 0 then ''-'' else '''') @ str_nat (n div 100) @ ''.''
         @ [digit_char ((n mod 100) div 10), digit_char (n mod 10)])"

subsection \<open>Display callbacks: 3-day moving average and PM10 rolling statistics\<close>

definition update_moving_average ::
  "real option \<Rightarrow> real option \<Rightarrow> real option \<Rightarrow> py_error + string" where
  "update_moving_average pm25_1d pm25_2d pm25_3d =
     (if list_all (\<lambda>v. v \<noteq> None) [pm25_1d, pm25_2d, pm25_3d]
      then (case np_mean [pm25_1d, pm25_2d, pm25_3d] of
              Inl e \<Rightarrow> Inl e
            | Inr avg \<Rightarrow> Inr (format_2f avg))
      else Inr ''0.00'')"

definition update_pm10_averages ::
  "real option \<Rightarrow> real option \<Rightarrow> real option \<Rightarrow> real option \<Rightarrow> real option
     \<Rightarrow> py_error + (string \<times> string \<times> string)" where
  "update_pm10_averages current lag1 lag3 lag6 lag24 =
     (if list_all (\<lambda>v. v \<noteq> None) [current, lag1, lag3, lag6, lag24]
      then (case np_mean [current, lag1, lag3, lag6] of
              Inl e \<Rightarrow> Inl e
            | Inr roll_mean_6 \<Rightarrow>
          (case np_mean [current, lag1, lag3, lag6, lag24] of
              Inl e \<Rightarrow> Inl e
            | Inr roll_mean_24 \<Rightarrow>
          (let weights = [0.4, 0.25, 0.2, 0.1, 0.05]
           in case np_average [current, lag1, lag3, lag6, lag24] weights of
                Inl e \<Rightarrow> Inl e
              | Inr ewm_12 \<Rightarrow>
                  Inr (format_2f roll_mean_6, format_2f roll_mean_24, format_2f ewm_12))))
      else Inr (''0.00'', ''0.00'', ''0.00''))"

subsection \<open>Adjustment factors of the 7-day loop\<close>

definition weekday_factor :: "int \<Rightarrow> real" where
  "weekday_factor day_of_week =
     (if day_of_week = 5 then 0.9
      else if day_of_week = 6 then 0.85
      else 1.0)"

definition weather_phase :: "nat \<Rightarrow> real" where
  "weather_phase day_offset = real (day_offset mod 3) / 3.0"

definition weather_factor :: "nat \<Rightarrow> real" where
  "weather_factor day_offset = 1.0 + 0.08 * sin (2 * pi * weather_phase day_offset)"

text \<open>The argument is the value drawn by \<^verbatim>\<open>np.random.random()\<close>.\<close>

definition random_factor :: "real \<Rightarrow> real" where
  "random_factor u = 1.0 + 0.03 * (u - 0.5)"

subsection \<open>Diurnal pattern of the PM10 track\<close>

text \<open>The \<^verbatim>\<open>if\<close>/\<^verbatim>\<open>elif\<close> chain of the loop body, in the source's order.\<close>

definition diurnal_modifier :: "int \<Rightarrow> real \<Rightarrow> real" where
  "diurnal_modifier current_hour base_value =
     (if 6 \<le> current_hour \<and> current_hour \<le> 9 then
        (let peak_factor = 0.15 * (1 - \<bar>of_int current_hour - 7.5\<bar> / 1.5)
         in base_value * peak_factor)
      else if 13 \<le> current_hour \<and> current_hour \<le> 16 then
        (let dip_factor = 0.10 * (1 - \<bar>of_int current_hour - 14.5\<bar> / 1.5)
         in - base_value * dip_factor)
      else if 18 \<le> current_hour \<and> current_hour \<le> 21 then
        (let peak_factor = 0.12 * (1 - \<bar>of_int current_hour - 19.5\<bar> / 1.5)
         in base_value * peak_factor)
      else if 0 \<le> current_hour \<and> current_hour \<le> 5 then
        (let dip_factor = 0.20 * (1 - \<bar>of_int current_hour - 3\<bar> / 3)
         in - base_value * dip_factor)
      else 0)"

text \<open>One iteration of \<^verbatim>\<open>for h in range(25)\<close>: the value appended for the offset \<open>h\<close>.\<close>

definition diurnal_value :: "real \<Rightarrow> real \<Rightarrow> int \<Rightarrow> nat \<Rightarrow> real" where
  "diurnal_value current_pm10 prediction start_hour h =
     (let current_hour = (start_hour + int h) mod 24;
          base_alpha = real h / 24.0;
          base_value = current_pm10 + (prediction - current_pm10) * base_alpha;
          modifier = diurnal_modifier current_hour base_value;
          adjusted_value = base_value + modifier
      in adjusted_value)"

definition diurnal_pattern :: "real \<Rightarrow> real \<Rightarrow> int \<Rightarrow> real list" where
  "diurnal_pattern current_pm10 prediction start_hour =
     fold (\<lambda>h pm10_values. pm10_values @ [diurnal_value current_pm10 prediction start_hour h])
       [0..<25] []"

text \<open>
  The band function and the per-offset value as the specification words them (its table
  and pseudo-code), for comparison with the loop of the source.
\<close>

definition band :: "int \<Rightarrow> real \<Rightarrow> real" where
  "band hour baseValue =
     (if 6 \<le> hour \<and> hour \<le> 9 then 0.15 * (1 - \<bar>of_int hour - 7.5\<bar> / 1.5) * baseValue
      else if 13 \<le> hour \<and> hour \<le> 16 then - 0.10 * (1 - \<bar>of_int hour - 14.5\<bar> / 1.5) * baseValue
      else if 18 \<le> hour \<and> hour \<le> 21 then 0.12 * (1 - \<bar>of_int hour - 19.5\<bar> / 1.5) * baseValue
      else if 0 \<le> hour \<and> hour \<le> 5 then - 0.20 * (1 - \<bar>of_int hour - 3\<bar> / 3) * baseValue
      else 0)"

definition curve_value :: "real \<Rightarrow> real \<Rightarrow> int \<Rightarrow> nat \<Rightarrow> real" where
  "curve_value currentValue predictedValue startHour h =
     (let absoluteHour = (startHour + int h) mod 24;
          baseAlpha = real h / 24;
          baseValue = currentValue + (predictedValue - currentValue) * baseAlpha
      in baseValue + band absoluteHour baseValue)"

text \<open>
  The interpolated base value at the offset \<open>h\<close>, the first summand of \<open>curve_value\<close>. At
  the offset 24 the code computes it as
  \<open>currentValue + (predictedValue - currentValue) * (24 / 24)\<close>.
\<close>

definition base_value :: "real \<Rightarrow> real \<Rightarrow> nat \<Rightarrow> real" where
  "base_value currentValue predictedValue h =
     currentValue + (predictedValue - currentValue) * (real h / 24)"

subsection \<open>Calendar dates\<close>

text \<open>
  The proleptic Gregorian calendar of Python's \<^verbatim>\<open>datetime\<close> module: day ordinals count from
  1 for 0001-01-01, \<^verbatim>\<open>weekday()\<close> is 0 on a Monday, and the largest date is 9999-12-31.
  The callbacks only use the date part of a \<^verbatim>\<open>datetime\<close> (the hour stays 0 on the 7-day
  track).
\<close>

datatype date = Date (date_year: int) (date_month: int) (date_day: int)

definition DAYS_IN_MONTH :: "int list" where
  "DAYS_IN_MONTH = [-1, 31, 28, 31, 30, 31, 30, 31, 31, 30, 31, 30, 31]"

definition DAYS_BEFORE_MONTH :: "int list" where
  "DAYS_BEFORE_MONTH = [-1, 0, 31, 59, 90, 120, 151, 181, 212, 243, 273, 304, 334]"

definition MAXORDINAL :: int where
  "MAXORDINAL = 3652059"

definition is_leap :: "int \<Rightarrow> bool" where
  "is_leap y = (y mod 4 = 0 \<and> (y mod 100 \<noteq> 0 \<or> y mod 400 = 0))"

definition days_before_year :: "int \<Rightarrow> int" where
  "days_before_year yr = (let y = yr - 1 in y * 365 + y div 4 - y div 100 + y div 400)"

definition days_in_month :: "int \<Rightarrow> int \<Rightarrow> int" where
  "days_in_month y m = (if m = 2 \<and> is_leap y then 29 else DAYS_IN_MONTH ! nat m)"

definition days_before_month :: "int \<Rightarrow> int \<Rightarrow> int" where
  "days_before_month y m =
     DAYS_BEFORE_MONTH ! nat m + (if 2 < m \<and> is_leap y then 1 else 0)"

definition ymd2ord :: "int \<Rightarrow> int \<Rightarrow> int \<Rightarrow> int" where
  "ymd2ord y m d = days_before_year y + days_before_month y m + d"

text \<open>Month and day of the \<open>n\<close>-th day (from 0) of a year.\<close>

definition ord2md :: "int \<Rightarrow> bool \<Rightarrow> int \<times> int" where
  "ord2md n leapyear =
     (let mo = (n + 50) div 32;
          preceding = DAYS_BEFORE_MONTH ! nat mo + (if 2 < mo \<and> leapyear then 1 else 0)
      in if n < preceding
         then (mo - 1,
               n - (preceding
                     - (DAYS_IN_MONTH ! nat (mo - 1) + (if mo - 1 = 2 \<and> leapyear then 1 else 0)))
                 + 1)
         else (mo, n - preceding + 1))"

definition ord2ymd :: "int \<Rightarrow> date" where
  "ord2ymd n0 =
     (let n = n0 - 1;
          n400 = n div 146097; r400 = n mod 146097;
          n100 = r400 div 36524; r100 = r400 mod 36524;
          n4 = r100 div 1461; r4 = r100 mod 1461;
          n1 = r4 div 365; r1 = r4 mod 365;
          yr = n400 * 400 + 1 + n100 * 100 + n4 * 4 + n1
      in if n1 = 4 \<or> n100 = 4 then Date (yr - 1) 12 31
         else (case ord2md r1 (n1 = 3 \<and> (n4 \<noteq> 24 \<or> n100 = 3)) of
                 (mo, d) \<Rightarrow> Date yr mo d))"

definition toordinal :: "date \<Rightarrow> int" where
  "toordinal d = ymd2ord (date_year d) (date_month d) (date_day d)"

definition weekday :: "date \<Rightarrow> int" where
  "weekday d = (toordinal d + 6) mod 7"

text \<open>\<^verbatim>\<open>d + timedelta(days=k)\<close>; a result outside the calendar raises OverflowError.\<close>

definition add_days :: "date \<Rightarrow> int \<Rightarrow> py_error + date" where
  "add_days d k =
     (let n = toordinal d + k
      in if 0 < n \<and> n \<le> MAXORDINAL then Inr (ord2ymd n) else Inl OverflowError)"

text \<open>
  \<^verbatim>\<open>datetime.strptime(s, '%Y-%m-%d')\<close>: four digits for the year, then month and day of
  one or two digits (the day also as a space and a digit), separated by hyphens;
  anything else, the year 0 and a day that the month does not have raise ValueError,
  and \<^verbatim>\<open>None\<close> in place of the string raises TypeError.
\<close>

definition digit_val :: "char \<Rightarrow> int" where
  "digit_val c = int (of_char c) - 48"

fun month_field :: "string \<Rightarrow> int option" where
  "month_field [a] = (if a \<in> set ''123456789'' then Some (digit_val a) else None)"
| "month_field [a, b] =
     (if (a = CHR ''1'' \<and> b \<in> set ''012'') \<or> (a = CHR ''0'' \<and> b \<in> set ''123456789'')
      then Some (10 * digit_val a + digit_val b) else None)"
| "month_field _ = None"

fun day_field :: "string \<Rightarrow> int option" where
  "day_field [a] = (if a \<in> set ''123456789'' then Some (digit_val a) else None)"
| "day_field [a, b] =
     (if (a = CHR ''3'' \<and> b \<in> set ''01'') \<or> (a \<in> set ''12'' \<and> b \<in> set ''0123456789'')
         \<or> (a = CHR ''0'' \<and> b \<in> set ''123456789'')
      then Some (10 * digit_val a + digit_val b)
      else if a = CHR '' '' \<and> b \<in> set ''123456789'' then Some (digit_val b)
      else None)"
| "day_field _ = None"

definition strptime :: "string option \<Rightarrow> py_error + date" where
  "strptime date_string =
     (case date_string of
        None \<Rightarrow> Inl TypeError
      | Some (y1 # y2 # y3 # y4 # sep # rest) \<Rightarrow>
          (let m_txt = takeWhile (\<lambda>c. c \<noteq> CHR ''-'') rest;
               d_txt = drop (length m_txt + 1) rest
           in if list_all (\<lambda>c. c \<in> set ''0123456789'') [y1, y2, y3, y4] \<and> sep = CHR ''-''
                 \<and> length m_txt < length rest
              then (case (month_field m_txt, day_field d_txt) of
                      (Some m, Some d) \<Rightarrow>
                        (let y = foldl (\<lambda>acc c. 10 * acc + digit_val c) 0 [y1, y2, y3, y4]
                         in if 1 \<le> y \<and> d \<le> days_in_month y m
                            then Inr (Date y m d)
                            else Inl ValueError)
                    | _ \<Rightarrow> Inl ValueError)
              else Inl ValueError)
      | Some _ \<Rightarrow> Inl ValueError)"

subsection \<open>Feature values and feature frames\<close>

text \<open>
  A value stored in the feature dictionary: a number, \<^verbatim>\<open>None\<close>, or the timestamp of the
  PM10 track (date and hour). A Python \<^verbatim>\<open>dict\<close> keeps its keys in insertion order, so a
  dictionary and the one-row data frame built from it are association lists.
\<close>

datatype pyval = PyNone | PyNum real | PyTimestamp date int

definition py_of :: "real option \<Rightarrow> pyval" where
  "py_of v = (case v of None \<Rightarrow> PyNone | Some x \<Rightarrow> PyNum x)"

type_synonym py_dict = "(string \<times> pyval) list"

text \<open>\<^verbatim>\<open>d.get(k, dflt)\<close>.\<close>

definition dict_get :: "py_dict \<Rightarrow> string \<Rightarrow> pyval \<Rightarrow> pyval" where
  "dict_get d k dflt = (case map_of d k of None \<Rightarrow> dflt | Some v \<Rightarrow> v)"

text \<open>\<^verbatim>\<open>d[k] = v\<close>: a key already present keeps its position.\<close>

definition dict_setitem :: "py_dict \<Rightarrow> string \<Rightarrow> pyval \<Rightarrow> py_dict" where
  "dict_setitem d k v =
     (if k \<in> fst ` set d then map (\<lambda>(k', v'). if k' = k then (k', v) else (k', v')) d
      else d @ [(k, v)])"

text \<open>
  The comprehension
  \<^verbatim>\<open>{name: [feature_values.get(name, 0)] for name in expected_features}\<close>.
\<close>

definition features_for_schema :: "string list \<Rightarrow> py_dict \<Rightarrow> py_dict" where
  "features_for_schema expected_features feature_values =
     fold (\<lambda>name df. dict_setitem df name (dict_get feature_values name (PyNum 0)))
       expected_features []"

text \<open>
  The names of a list, each once, in the order of their first occurrence: the key order of
  a Python dictionary that is filled from the list.
\<close>

definition first_occurrences :: "'a list \<Rightarrow> 'a list" where
  "first_occurrences names = fold (\<lambda>k ks. if k \<in> set ks then ks else ks @ [k]) names []"

text \<open>
  A predictor takes the one-row frame and returns its prediction or raises; the schema
  \<open>expected_features\<close> is the list of names read from the loaded model (empty when the
  model has none).
\<close>

type_synonym predictor = "py_dict \<Rightarrow> py_error + real"

subsection \<open>The 7-day forecast\<close>

definition feature_values_7d ::
  "real \<Rightarrow> real \<Rightarrow> int \<Rightarrow> int \<Rightarrow> int \<Rightarrow> int \<Rightarrow> real \<Rightarrow> real \<Rightarrow> real \<Rightarrow> py_dict" where
  "feature_values_7d humidity temperature hour day month day_of_week
       pm25_current pm25_lag1d pm25_ma3d =
     [(''humidity'', PyNum humidity),
      (''temperature'', PyNum temperature),
      (''hour'', PyNum (of_int hour)),
      (''day'', PyNum (of_int day)),
      (''month'', PyNum (of_int month)),
      (''day_of_week'', PyNum (of_int day_of_week)),
      (''pm_2_5'', PyNum pm25_current),
      (''pm_2_5_lag1h'', PyNum pm25_lag1d),
      (''pm25_lag1h'', PyNum pm25_lag1d),
      (''pm_2_5_lag_1_h'', PyNum pm25_lag1d),
      (''pm_2_5_ma3h'', PyNum pm25_ma3d),
      (''pm25_ma3h'', PyNum pm25_ma3d)]"

definition features_7d ::
  "string list \<Rightarrow> real \<Rightarrow> real \<Rightarrow> int \<Rightarrow> int \<Rightarrow> int \<Rightarrow> int \<Rightarrow> real \<Rightarrow> real \<Rightarrow> real \<Rightarrow> py_dict"
  where
  "features_7d expected_features humidity temperature hour day month day_of_week
       pm25_current pm25_lag1d pm25_ma3d =
     (let feature_values = feature_values_7d humidity temperature hour day month day_of_week
                             pm25_current pm25_lag1d pm25_ma3d
      in if expected_features \<noteq> [] then features_for_schema expected_features feature_values
         else [(''humidity'', PyNum humidity),
               (''pm_2_5'', PyNum pm25_current),
               (''temperature'', PyNum temperature),
               (''hour'', PyNum (of_int hour)),
               (''day'', PyNum (of_int day)),
               (''month'', PyNum (of_int month)),
               (''day_of_week'', PyNum (of_int day_of_week)),
               (''pm_2_5_lag1h'', PyNum pm25_lag1d),
               (''pm_2_5_ma3h'', PyNum pm25_ma3d)])"

text \<open>The variables the loop carries from one iteration to the next, and its two result lists.\<close>

datatype loop_state =
  LoopState (pm25_current: real) (pm25_lag1d: real) (pm25_ma3d: real)
    (predictions: "real list") (dates: "date list")

text \<open>
  The body of \<^verbatim>\<open>for day_offset in range(7)\<close>. \<open>draws\<close> is the random source: the loop
  calls \<^verbatim>\<open>np.random.random()\<close> once per iteration, so iteration \<open>day_offset\<close> receives the
  draw \<open>draws day_offset\<close> of the run. The list \<open>dates\<close> keeps the dates themselves, not
  their \<^verbatim>\<open>strftime\<close> text.
\<close>

definition forecast_day ::
  "predictor \<Rightarrow> string list \<Rightarrow> (nat \<Rightarrow> real) \<Rightarrow> real \<Rightarrow> real \<Rightarrow> date \<Rightarrow> nat \<Rightarrow> loop_state
     \<Rightarrow> py_error + loop_state" where
  "forecast_day model expected_features draws humidity temperature start_date_obj day_offset s =
     (case add_days start_date_obj (int day_offset) of
        Inl e \<Rightarrow> Inl e
      | Inr prediction_date \<Rightarrow>
          (let hour = 12;
               day = date_day prediction_date;
               month = date_month prediction_date;
               day_of_week = weekday prediction_date;
               features = features_7d expected_features humidity temperature hour day month
                            day_of_week (pm25_current s) (pm25_lag1d s) (pm25_ma3d s)
           in case model features of
                Inl e \<Rightarrow> Inl e
              | Inr base_prediction \<Rightarrow>
                  (let adjusted_prediction =
                         py_round2 (base_prediction * weekday_factor day_of_week
                                    * weather_factor day_offset
                                    * random_factor (draws day_offset));
                       lag1d = pm25_current s;
                       current = adjusted_prediction
                   in case np_mean [Some (pm25_ma3d s), Some lag1d, Some current] of
                        Inl e \<Rightarrow> Inl e
                      | Inr ma3d \<Rightarrow>
                          Inr (LoopState current lag1d ma3d
                                 (predictions s @ [adjusted_prediction])
                                 (dates s @ [prediction_date])))))"

text \<open>A \<^verbatim>\<open>for\<close> loop over a list of indices whose body may raise.\<close>

fun for_range :: "(nat \<Rightarrow> 's \<Rightarrow> py_error + 's) \<Rightarrow> nat list \<Rightarrow> 's \<Rightarrow> py_error + 's" where
  "for_range body [] s = Inr s"
| "for_range body (i # rest) s =
     (case body i s of Inl e \<Rightarrow> Inl e | Inr s' \<Rightarrow> for_range body rest s')"

text \<open>
  What the callback hands to the rendering layer: nothing (\<^verbatim>\<open>html.Div(), {}\<close>) before the
  first click, otherwise the predictions and their dates.
\<close>

datatype forecast_output = NoForecast | Forecast "real list" "date list"

text \<open>
  The callback has no \<^verbatim>\<open>try\<close>: an exception raised in it leaves the callback (\<open>Inl\<close>).
  Past \<^verbatim>\<open>np.mean\<close> the three lag inputs are numbers.
\<close>

definition update_7day_prediction ::
  "predictor \<Rightarrow> string list \<Rightarrow> (nat \<Rightarrow> real) \<Rightarrow> int \<Rightarrow> real \<Rightarrow> real \<Rightarrow> string option
     \<Rightarrow> real option \<Rightarrow> real option \<Rightarrow> real option \<Rightarrow> py_error + forecast_output" where
  "update_7day_prediction model expected_features draws n_clicks humidity temperature start_date
       pm25_1d_ago pm25_2d_ago pm25_3d_ago =
     (if n_clicks > 0 then
        (case strptime start_date of
           Inl e \<Rightarrow> Inl e
         | Inr start_date_obj \<Rightarrow>
        (case np_mean [pm25_1d_ago, pm25_2d_ago, pm25_3d_ago] of
           Inl e \<Rightarrow> Inl e
         | Inr ma3d \<Rightarrow>
        (case (pm25_1d_ago, pm25_2d_ago) of
           (Some current, Some lag1d) \<Rightarrow>
             (case for_range
                     (forecast_day model expected_features draws humidity temperature
                        start_date_obj)
                     [0..<7] (LoopState current lag1d ma3d [] []) of
                Inl e \<Rightarrow> Inl e
              | Inr s \<Rightarrow> Inr (Forecast (predictions s) (dates s)))
         | _ \<Rightarrow> Inl TypeError)))
      else Inr NoForecast)"

subsection \<open>The PM10 24-hour forecast\<close>

definition feature_values_pm10 ::
  "pyval \<Rightarrow> real \<Rightarrow> real option \<Rightarrow> real \<Rightarrow> int \<Rightarrow> int \<Rightarrow> int \<Rightarrow> int
     \<Rightarrow> real option \<Rightarrow> real option \<Rightarrow> real option \<Rightarrow> real option
     \<Rightarrow> real \<Rightarrow> real \<Rightarrow> real \<Rightarrow> py_dict" where
  "feature_values_pm10 timestamp humidity current_pm10 temperature hour day month day_of_week
       pm10_lag_1 pm10_lag_3 pm10_lag_6 pm10_lag_24
       pm10_roll_mean_6 pm10_roll_mean_24 pm10_ewm_12 =
     [(''timestamp'', timestamp),
      (''humidity'', PyNum humidity),
      (''pm_10'', py_of current_pm10),
      (''temperature'', PyNum temperature),
      (''hour'', PyNum (of_int hour)),
      (''day'', PyNum (of_int day)),
      (''month'', PyNum (of_int month)),
      (''day_of_week'', PyNum (of_int day_of_week)),
      (''pm10_lag_1'', py_of pm10_lag_1),
      (''pm10_lag_3'', py_of pm10_lag_3),
      (''pm10_lag_6'', py_of pm10_lag_6),
      (''pm10_lag_24'', py_of pm10_lag_24),
      (''pm10_roll_mean_6'', PyNum pm10_roll_mean_6),
      (''pm10_roll_mean_24'', PyNum pm10_roll_mean_24),
      (''pm10_ewm_12'', PyNum pm10_ewm_12)]"

definition features_pm10 ::
  "string list \<Rightarrow> pyval \<Rightarrow> real \<Rightarrow> real option \<Rightarrow> real \<Rightarrow> int \<Rightarrow> int \<Rightarrow> int \<Rightarrow> int
     \<Rightarrow> real option \<Rightarrow> real option \<Rightarrow> real option \<Rightarrow> real option
     \<Rightarrow> real \<Rightarrow> real \<Rightarrow> real \<Rightarrow> py_dict" where
  "features_pm10 pm10_expected_features timestamp humidity current_pm10 temperature hour day
       month day_of_week pm10_lag_1 pm10_lag_3 pm10_lag_6 pm10_lag_24
       pm10_roll_mean_6 pm10_roll_mean_24 pm10_ewm_12 =
     (let feature_values =
            feature_values_pm10 timestamp humidity current_pm10 temperature hour day month
              day_of_week pm10_lag_1 pm10_lag_3 pm10_lag_6 pm10_lag_24
              pm10_roll_mean_6 pm10_roll_mean_24 pm10_ewm_12
      in if pm10_expected_features \<noteq> []
         then features_for_schema pm10_expected_features feature_values
         else [(''timestamp'', timestamp),
               (''humidity'', PyNum humidity),
               (''pm_10'', py_of current_pm10),
               (''temperature'', PyNum temperature),
               (''hour'', PyNum (of_int hour)),
               (''day'', PyNum (of_int day)),
               (''month'', PyNum (of_int month)),
               (''day_of_week'', PyNum (of_int day_of_week)),
               (''pm10_lag_1'', py_of pm10_lag_1),
               (''pm10_lag_3'', py_of pm10_lag_3),
               (''pm10_lag_6'', py_of pm10_lag_6),
               (''pm10_lag_24'', py_of pm10_lag_24),
               (''pm10_roll_mean_6'', PyNum pm10_roll_mean_6),
               (''pm10_roll_mean_24'', PyNum pm10_roll_mean_24),
               (''pm10_ewm_12'', PyNum pm10_ewm_12)])"

text \<open>
  The body of the \<^verbatim>\<open>try\<close> block, with each statement that can raise in the source's
  order: parsing the date, the three statistics, \<^verbatim>\<open>replace(hour=hour)\<close>, the lookup
  \<^verbatim>\<open>features['timestamp']\<close>, the predictor, the last of the 25 time points (24 hours
  after the start, always on the following day) and the arithmetic of the diurnal loop.
  The result is the prediction and the 25 values of the curve.
\<close>

definition pm10_try_block ::
  "predictor \<Rightarrow> string list \<Rightarrow> real \<Rightarrow> real \<Rightarrow> string option \<Rightarrow> int
     \<Rightarrow> real option \<Rightarrow> real option \<Rightarrow> real option \<Rightarrow> real option \<Rightarrow> real option
     \<Rightarrow> py_error + (real \<times> real list)" where
  "pm10_try_block pm10_model pm10_expected_features humidity temperature date hour
       current_pm10 pm10_lag_1 pm10_lag_3 pm10_lag_6 pm10_lag_24 =
     (case strptime date of
        Inl e \<Rightarrow> Inl e
      | Inr date_obj \<Rightarrow>
     (let day = date_day date_obj;
          month = date_month date_obj;
          day_of_week = weekday date_obj
      in case np_mean [current_pm10, pm10_lag_1, pm10_lag_3, pm10_lag_6] of
        Inl e \<Rightarrow> Inl e
      | Inr pm10_roll_mean_6 \<Rightarrow>
     (case np_mean [current_pm10, pm10_lag_1, pm10_lag_3, pm10_lag_6, pm10_lag_24] of
        Inl e \<Rightarrow> Inl e
      | Inr pm10_roll_mean_24 \<Rightarrow>
     (let weights = [0.4, 0.25, 0.2, 0.1, 0.05]
      in case np_average [current_pm10, pm10_lag_1, pm10_lag_3, pm10_lag_6, pm10_lag_24]
                weights of
        Inl e \<Rightarrow> Inl e
      | Inr pm10_ewm_12 \<Rightarrow>
     (if \<not> (0 \<le> hour \<and> hour \<le> 23) then Inl ValueError
      else
     (let timestamp = PyTimestamp date_obj hour;
          features = features_pm10 pm10_expected_features timestamp humidity current_pm10
                       temperature hour day month day_of_week
                       pm10_lag_1 pm10_lag_3 pm10_lag_6 pm10_lag_24
                       pm10_roll_mean_6 pm10_roll_mean_24 pm10_ewm_12
      in if ''timestamp'' \<notin> fst ` set features then Inl KeyError
         else
     (case pm10_model features of
        Inl e \<Rightarrow> Inl e
      | Inr prediction \<Rightarrow>
     (if MAXORDINAL < toordinal date_obj + 1 then Inl OverflowError
      else
     (case current_pm10 of
        None \<Rightarrow> Inl TypeError
      | Some current \<Rightarrow> Inr (prediction, diurnal_pattern current prediction hour))))))))))"

text \<open>
  What the callback returns: nothing before the first click, the forecast, the message
  of the \<^verbatim>\<open>except Exception\<close> handler, or the message that the model was not loaded.
\<close>

datatype pm10_output =
  NoPrediction | PM10Forecast real "real list" | PredictionError py_error | ModelNotLoaded

definition update_pm10_prediction ::
  "bool \<Rightarrow> predictor \<Rightarrow> string list \<Rightarrow> int \<Rightarrow> real \<Rightarrow> real \<Rightarrow> string option \<Rightarrow> int
     \<Rightarrow> real option \<Rightarrow> real option \<Rightarrow> real option \<Rightarrow> real option \<Rightarrow> real option
     \<Rightarrow> pm10_output" where
  "update_pm10_prediction pm10_model_loaded pm10_model pm10_expected_features n_clicks
       humidity temperature date hour current_pm10 pm10_lag_1 pm10_lag_3 pm10_lag_6 pm10_lag_24 =
     (if n_clicks > 0 \<and> pm10_model_loaded then
        (case pm10_try_block pm10_model pm10_expected_features humidity temperature date hour
                current_pm10 pm10_lag_1 pm10_lag_3 pm10_lag_6 pm10_lag_24 of
           Inl e \<Rightarrow> PredictionError e
         | Inr (prediction, pm10_values) \<Rightarrow> PM10Forecast prediction pm10_values)
      else if n_clicks > 0 \<and> \<not> pm10_model_loaded then ModelNotLoaded
      else NoPrediction)"

section \<open>Properties\<close>

subsection \<open>Helper facts\<close>

lemma those_all_Some: "those (map Some vs) = Some vs"
  by (induction vs) simp_all

lemma np_mean_Some: "np_mean (map Some vs) = Inr (sum_list vs / real (length vs))"
  by (simp add: np_mean_def those_all_Some)

lemma format_2f_zero: "format_2f 0 = ''0.00''"
  by (simp add: format_2f_def round_half_even_def digit_char_def)

lemma sin_two_thirds_pi: "sin (2 * pi / 3) = sqrt 3 / 2"
proof -
  have "sin (2 * pi / 3) = sin (pi - pi / 3)" by simp
  also have "\<dots> = sin (pi / 3)" by (rule sin_pi_minus)
  finally show ?thesis by (simp add: sin_60)
qed

lemma sin_four_thirds_pi: "sin (4 * pi / 3) = - (sqrt 3 / 2)"
proof -
  have "sin (4 * pi / 3) = sin (pi / 3 + pi)" by simp
  also have "\<dots> = - sin (pi / 3)" by (rule sin_periodic_pi)
  finally show ?thesis by (simp add: sin_60)
qed

subsection \<open>Weather cycle factor\<close>

text \<open>
  Claim C8. At every step index the weather cycle factor is
  \<open>1 + 0.08 * sin (2\<pi> * (i mod 3) / 3)\<close>; at the step indices 0, 3 and 6 it is exactly 1.
  The other two phases of the cycle are \<open>1 + 0.04 * sqrt 3\<close> and \<open>1 - 0.04 * sqrt 3\<close>.
\<close>

theorem weather_factor_cycle:
  "weather_factor i = 1 + 0.08 * sin (2 * pi * real (i mod 3) / 3)
   \<and> weather_factor 0 = 1 \<and> weather_factor 3 = 1 \<and> weather_factor 6 = 1
   \<and> weather_factor 1 = 1 + 0.04 * sqrt 3 \<and> weather_factor 4 = 1 + 0.04 * sqrt 3
   \<and> weather_factor 2 = 1 - 0.04 * sqrt 3 \<and> weather_factor 5 = 1 - 0.04 * sqrt 3"
  by (simp add: weather_factor_def weather_phase_def sin_two_thirds_pi sin_four_thirds_pi)

subsection \<open>Rolling statistics\<close>

text \<open>
  Claim C4, as amended. With all five inputs present and integer-valued in the range
  0 to 1000 of the input fields, the callback reports, each formatted to two decimals, the
  mean of \<open>current, lag1, lag3, lag6\<close>, the mean of all five values and their weighted sum
  with the weights 0.4, 0.25, 0.2, 0.1, 0.05. For the inputs 30, 28, 25, 22, 28 the three
  outputs are 26.25, 26.60 and 27.60.

  The restriction to integer inputs keeps the statement independent of the rounding of the
  floating-point mean: the three exact values then have at most two decimals, so the
  formatted strings do not depend on the last bits of the computed numbers.
\<close>

theorem pm10_averages_all_present:
  assumes "\<forall>x \<in> set [c, l1, l3, l6, l24]. 0 \<le> x \<and> x \<le> (1000 :: int)"
  shows "update_pm10_averages (Some (of_int c)) (Some (of_int l1)) (Some (of_int l3))
           (Some (of_int l6)) (Some (of_int l24)) =
     Inr (format_2f (of_int (c + l1 + l3 + l6) / 4),
          format_2f (of_int (c + l1 + l3 + l6 + l24) / 5),
          format_2f (0.4 * of_int c + 0.25 * of_int l1 + 0.2 * of_int l3 + 0.1 * of_int l6
                     + 0.05 * of_int l24))
   \<and> np_average [Some 30, Some 28, Some 25, Some 22, Some 28] [0.4, 0.25, 0.2, 0.1, 0.05]
       = Inr 27.6
   \<and> update_pm10_averages (Some 30) (Some 28) (Some 25) (Some 22) (Some 28) =
       Inr (''26.25'', ''26.60'', ''27.60'')"
proof (intro conjI)
  show "update_pm10_averages (Some (of_int c)) (Some (of_int l1)) (Some (of_int l3))
           (Some (of_int l6)) (Some (of_int l24)) =
     Inr (format_2f (of_int (c + l1 + l3 + l6) / 4),
          format_2f (of_int (c + l1 + l3 + l6 + l24) / 5),
          format_2f (0.4 * of_int c + 0.25 * of_int l1 + 0.2 * of_int l3 + 0.1 * of_int l6
                     + 0.05 * of_int l24))"
    by (simp add: update_pm10_averages_def np_mean_def np_average_def algebra_simps)
  show "np_average [Some 30, Some 28, Some 25, Some 22, Some 28] [0.4, 0.25, 0.2, 0.1, 0.05]
       = Inr 27.6"
    by (simp add: np_average_def)
  show "update_pm10_averages (Some 30) (Some 28) (Some 25) (Some 22) (Some 28) =
       Inr (''26.25'', ''26.60'', ''27.60'')"
    by (simp add: update_pm10_averages_def np_mean_def np_average_def format_2f_def
        round_half_even_def digit_char_def)
qed

theorem pm10_averages_all_present_witness:
  "(0::int) \<le> 35 \<and> (35::int) \<le> 1000 \<and> (0::int) \<le> 40 \<and> (40::int) \<le> 1000
   \<and> (0::int) \<le> 12 \<and> (12::int) \<le> 1000 \<and> (0::int) \<le> 7 \<and> (7::int) \<le> 1000
   \<and> (0::int) \<le> 90 \<and> (90::int) \<le> 1000
   \<and> update_pm10_averages (Some 35) (Some 40) (Some 12) (Some 7) (Some 90) =
     Inr (''23.50'', ''36.80'', ''31.60'')"
  using pm10_averages_all_present [of 35 40 12 7 90]
  by (simp add: format_2f_def round_half_even_def digit_char_def)

text \<open>
  The claim as written gives 27.5 for the weighted average of 30, 28, 25, 22, 28; the code
  computes 12 + 7 + 5 + 2.2 + 1.4 = 27.6.
\<close>

theorem pm10_averages_ewm_counterexample:
  "np_average [Some 30, Some 28, Some 25, Some 22, Some 28] [0.4, 0.25, 0.2, 0.1, 0.05]
     \<noteq> Inr 27.5
   \<and> update_pm10_averages (Some 30) (Some 28) (Some 25) (Some 22) (Some 28)
     \<noteq> Inr (''26.25'', ''26.60'', ''27.50'')"
  by (simp add: update_pm10_averages_def np_mean_def np_average_def format_2f_def
      round_half_even_def digit_char_def)

subsection \<open>Absent inputs of the display callbacks\<close>

text \<open>
  Claim C9. The PM10 statistics callback and the 3-day moving-average callback never
  raise, and when one of their inputs is absent every output is the text \<open>0.00\<close>.
\<close>

theorem display_callbacks_absorb_missing:
  "(\<exists>out. update_pm10_averages current lag1 lag3 lag6 lag24 = Inr out)
   \<and> (None \<in> set [current, lag1, lag3, lag6, lag24] \<longrightarrow>
        update_pm10_averages current lag1 lag3 lag6 lag24 = Inr (''0.00'', ''0.00'', ''0.00''))
   \<and> (\<exists>txt. update_moving_average pm25_1d pm25_2d pm25_3d = Inr txt)
   \<and> (None \<in> set [pm25_1d, pm25_2d, pm25_3d] \<longrightarrow>
        update_moving_average pm25_1d pm25_2d pm25_3d = Inr ''0.00'')"
  by (auto simp: update_pm10_averages_def update_moving_average_def np_mean_def
      np_average_def)

theorem display_callbacks_absorb_missing_witness:
  "None \<in> set [Some 30, Some 28, None, Some 22, Some (28::real)]
   \<and> update_pm10_averages (Some 30) (Some 28) None (Some 22) (Some 28)
       = Inr (''0.00'', ''0.00'', ''0.00'')
   \<and> None \<in> set [Some 20, None, Some (20::real)]
   \<and> update_moving_average (Some 20) None (Some 20) = Inr ''0.00''"
  using display_callbacks_absorb_missing
    [of "Some 30" "Some 28" None "Some 22" "Some 28" "Some 20" None "Some 20"]
  by simp

subsection \<open>Diurnal curve\<close>

lemma fold_append_map: "fold (\<lambda>h acc. acc @ [f h]) xs acc = acc @ map f xs"
  by (induction xs arbitrary: acc) simp_all

lemma diurnal_pattern_map:
  "diurnal_pattern c p sh = map (diurnal_value c p sh) [0..<25]"
  by (simp add: diurnal_pattern_def fold_append_map del: upt_Suc)

lemma diurnal_modifier_band: "diurnal_modifier hr b = band hr b"
  by (simp add: diurnal_modifier_def band_def Let_def)

lemma diurnal_value_curve: "diurnal_value c p sh h = curve_value c p sh h"
  by (simp add: diurnal_value_def curve_value_def diurnal_modifier_band Let_def)

lemma diurnal_pattern_nth:
  "h < 25 \<Longrightarrow> diurnal_pattern c p sh ! h = diurnal_value c p sh h"
  by (simp add: diurnal_pattern_map del: upt_Suc)

text \<open>
  Claim C3. The diurnal loop produces exactly 25 values, the one at offset \<open>h\<close> being
  \<open>baseValue + band absoluteHour baseValue\<close> with
  \<open>baseValue = currentValue + (predictedValue - currentValue) * h / 24\<close> and
  \<open>absoluteHour = (startHour + h) mod 24\<close>. With \<open>currentValue = 30\<close> and \<open>startHour = 7\<close>
  the value at offset 0 is 33, above 30.
\<close>

theorem diurnal_pattern_curve:
  "length (diurnal_pattern c p sh) = 25
   \<and> diurnal_pattern c p sh = map (curve_value c p sh) [0..<25]
   \<and> diurnal_pattern 30 p 7 ! 0 = 33
   \<and> 30 < diurnal_pattern 30 p 7 ! 0"
proof -
  have "diurnal_pattern 30 p 7 ! 0 = diurnal_value 30 p 7 0"
    by (rule diurnal_pattern_nth) simp
  also have "\<dots> = 33"
    by (simp add: diurnal_value_def diurnal_modifier_def)
  finally have v0: "diurnal_pattern 30 p 7 ! 0 = 33" .
  have len: "length (diurnal_pattern c p sh) = 25"
    by (simp add: diurnal_pattern_map del: upt_Suc)
  have eq: "diurnal_pattern c p sh = map (curve_value c p sh) [0..<25]"
    unfolding diurnal_pattern_map by (rule map_cong) (simp_all add: diurnal_value_curve)
  from len eq v0 show ?thesis by simp
qed

lemma hour_cases:
  "0 \<le> sh \<Longrightarrow> sh \<le> 23 \<Longrightarrow>
   (sh::int) \<in> {0, 1, 2, 3, 4, 5, 6, 7, 8, 9, 10, 11, 12, 13, 14, 15, 16, 17, 18, 19, 20, 21, 22, 23}"
  by simp presburger

lemma band_zero_iff:
  assumes "0 \<le> sh" "sh \<le> 23"
  shows "band sh p = 0 \<longleftrightarrow> p = 0 \<or> sh \<in> {0, 6, 9, 10, 11, 12, 13, 16, 17, 18, 21, 22, 23}"
proof -
  from hour_cases [OF assms] consider
      "sh = 0" | "sh = 1" | "sh = 2" | "sh = 3" | "sh = 4" | "sh = 5" | "sh = 6" | "sh = 7"
    | "sh = 8" | "sh = 9" | "sh = 10" | "sh = 11" | "sh = 12" | "sh = 13" | "sh = 14"
    | "sh = 15" | "sh = 16" | "sh = 17" | "sh = 18" | "sh = 19" | "sh = 20" | "sh = 21"
    | "sh = 22" | "sh = 23"
    by blast
  then show ?thesis
    by cases (simp_all add: band_def)
qed

lemma diurnal_last:
  "diurnal_pattern c p sh ! 24 = p + band (sh mod 24) p"
proof -
  have "diurnal_pattern c p sh ! 24 = diurnal_value c p sh 24"
    by (rule diurnal_pattern_nth) simp
  then show ?thesis
    by (simp add: diurnal_value_curve curve_value_def)
qed

lemma diurnal_last_base:
  "diurnal_pattern c p sh ! 24 =
     base_value c p 24 + band ((sh + 24) mod 24) (base_value c p 24)"
proof -
  have "diurnal_pattern c p sh ! 24 = diurnal_value c p sh 24"
    by (rule diurnal_pattern_nth) simp
  then show ?thesis
    by (simp add: diurnal_value_curve curve_value_def base_value_def)
qed

text \<open>
  Claim C10, as amended. For a start hour in 0..23 the last point of the curve is
  \<open>b + band ((startHour + 24) mod 24) b\<close>, where \<open>b\<close> is the base value interpolated at the
  offset 24, \<open>currentValue + (predictedValue - currentValue) * (24 / 24)\<close>, which stands for
  the raw 24h prediction; \<open>(startHour + 24) mod 24\<close> is \<open>startHour\<close>, the hour of the offset 0.
  The curve ends exactly at \<open>b\<close> only when \<open>b\<close> is 0 or the start hour is a neutral hour
  (10, 11, 12, 17, 22, 23) or an edge hour of a band, where the band formula vanishes
  (0, 6, 9, 13, 16, 18, 21).
\<close>

theorem diurnal_pattern_end:
  assumes "0 \<le> sh" "sh \<le> 23"
  shows "diurnal_pattern c p sh ! 24 =
           base_value c p 24 + band ((sh + 24) mod 24) (base_value c p 24)
   \<and> (sh + 24) mod 24 = sh
   \<and> diurnal_pattern c p sh ! 24 = base_value c p 24 + band sh (base_value c p 24)
   \<and> (diurnal_pattern c p sh ! 24 = base_value c p 24 \<longrightarrow>
        base_value c p 24 = 0 \<or> sh \<in> {0, 6, 9, 10, 11, 12, 13, 16, 17, 18, 21, 22, 23})"
proof -
  have m: "(sh + 24) mod 24 = sh" using assms by simp
  have e: "diurnal_pattern c p sh ! 24 = base_value c p 24 + band sh (base_value c p 24)"
    using diurnal_last_base [of c p sh] by (simp only: m)
  have i: "diurnal_pattern c p sh ! 24 = base_value c p 24 \<longrightarrow>
        base_value c p 24 = 0 \<or> sh \<in> {0, 6, 9, 10, 11, 12, 13, 16, 17, 18, 21, 22, 23}"
  proof
    assume "diurnal_pattern c p sh ! 24 = base_value c p 24"
    with e have "band sh (base_value c p 24) = 0" by simp
    then show "base_value c p 24 = 0 \<or> sh \<in> {0, 6, 9, 10, 11, 12, 13, 16, 17, 18, 21, 22, 23}"
      by (simp only: band_zero_iff [OF assms])
  qed
  from diurnal_last_base [of c p sh] m e i show ?thesis by (intro conjI)
qed

theorem diurnal_pattern_end_witness:
  "(0::int) \<le> 9 \<and> (9::int) \<le> 23
   \<and> diurnal_pattern 20 40 9 ! 24 = base_value 20 40 24
   \<and> (9::int) \<in> {0, 6, 9, 10, 11, 12, 13, 16, 17, 18, 21, 22, 23}
   \<and> base_value 20 40 24 = 40
   \<and> diurnal_pattern 30 50 7 ! 24 = 55"
  using diurnal_pattern_end [of 9 20 40] diurnal_pattern_end [of 7 30 50]
  by (simp add: band_def base_value_def)

text \<open>
  Start hour 6 lies in the morning band, not in a neutral band, and still the curve ends
  at the raw prediction: the morning formula is 0 at the hours 6 and 9.
\<close>

theorem diurnal_pattern_end_counterexample:
  "diurnal_pattern 30 50 6 ! 24 = 50 \<and> (6::int) \<notin> {10, 11, 12, 17, 22, 23}"
  by (simp add: diurnal_last band_def)

subsection \<open>Feature vector builder\<close>

lemma dict_setitem_same:
  "dict_setitem (map (\<lambda>n. (n, g n)) ks) k (g k) =
     map (\<lambda>n. (n, g n)) (if k \<in> set ks then ks else ks @ [k])"
  by (auto simp: dict_setitem_def image_iff)

lemma fold_setitem:
  "fold (\<lambda>name df. dict_setitem df name (g name)) xs (map (\<lambda>n. (n, g n)) ks) =
     map (\<lambda>n. (n, g n)) (fold (\<lambda>k ks. if k \<in> set ks then ks else ks @ [k]) xs ks)"
proof (induction xs arbitrary: ks)
  case Nil
  show ?case by simp
next
  case (Cons x xs)
  have "fold (\<lambda>name df. dict_setitem df name (g name)) (x # xs) (map (\<lambda>n. (n, g n)) ks) =
        fold (\<lambda>name df. dict_setitem df name (g name)) xs
          (map (\<lambda>n. (n, g n)) (if x \<in> set ks then ks else ks @ [x]))"
    by (simp only: fold_simps dict_setitem_same)
  then show ?case by (simp only: Cons.IH fold_simps)
qed

lemma fold_first_occurrences_distinct:
  "distinct (ks @ xs) \<Longrightarrow> fold (\<lambda>k ks. if k \<in> set ks then ks else ks @ [k]) xs ks = ks @ xs"
  by (induction xs arbitrary: ks) auto

lemma features_for_schema_map:
  "features_for_schema schema vals =
     map (\<lambda>name. (name, dict_get vals name (PyNum 0)))
       (fold (\<lambda>k ks. if k \<in> set ks then ks else ks @ [k]) schema [])"
  unfolding features_for_schema_def
  using fold_setitem [of "\<lambda>name. dict_get vals name (PyNum 0)" schema "[]"] by simp

lemma fold_first_occurrences_set:
  "set (fold (\<lambda>k ks. if k \<in> set ks then ks else ks @ [k]) xs ks) = set ks \<union> set xs"
  by (induction xs arbitrary: ks) auto

lemma fold_first_occurrences_is_distinct:
  "distinct ks \<Longrightarrow> distinct (fold (\<lambda>k ks. if k \<in> set ks then ks else ks @ [k]) xs ks)"
  by (induction xs arbitrary: ks) auto

lemma first_occurrences_props:
  "set (first_occurrences xs) = set xs" "distinct (first_occurrences xs)"
  "distinct xs \<Longrightarrow> first_occurrences xs = xs"
  using fold_first_occurrences_set [of xs "[]"] fold_first_occurrences_is_distinct [of "[]" xs]
    fold_first_occurrences_distinct [of "[]" xs]
  by (simp_all add: first_occurrences_def)

lemma features_for_schema_first:
  "features_for_schema schema vals =
     map (\<lambda>name. (name, dict_get vals name (PyNum 0))) (first_occurrences schema)"
  by (simp only: features_for_schema_map first_occurrences_def)

text \<open>
  Claim C7. For every non-empty schema the feature frame of both tracks has one value per
  schema name, in schema order: the value the feature dictionary holds under that name
  (each alias of a concept is a key of its own), or 0 when the dictionary has no such key.
  The frame is built through a dictionary, so a name that the schema repeats has one
  column, at the place of its first occurrence; a schema of distinct names is kept as it
  is. The schema \<open>a, b\<close> with the values \<open>{a: 5}\<close> gives the vector \<open>[5, 0]\<close>.
\<close>

theorem feature_vector_builder:
  "(schema \<noteq> [] \<longrightarrow>
      features_7d schema humidity temperature hour day month day_of_week cur lag ma =
        map (\<lambda>name. (name, dict_get (feature_values_7d humidity temperature hour day month
                                        day_of_week cur lag ma) name (PyNum 0)))
          (first_occurrences schema)
      \<and> features_pm10 schema ts humidity c temperature hour day month day_of_week
          l1 l3 l6 l24 r6 r24 ewm =
        map (\<lambda>name. (name, dict_get (feature_values_pm10 ts humidity c temperature hour day month
                                        day_of_week l1 l3 l6 l24 r6 r24 ewm) name (PyNum 0)))
          (first_occurrences schema))
   \<and> set (first_occurrences schema) = set schema
   \<and> distinct (first_occurrences schema)
   \<and> (distinct schema \<longrightarrow> first_occurrences schema = schema)
   \<and> (map_of vals name = Some v \<longrightarrow> dict_get vals name (PyNum 0) = v)
   \<and> (map_of vals name = None \<longrightarrow> dict_get vals name (PyNum 0) = PyNum 0)
   \<and> map snd (features_for_schema [''a'', ''b''] [(''a'', PyNum 5)]) = [PyNum 5, PyNum 0]
   \<and> map snd (features_for_schema [''a'', ''b'', ''a''] [(''a'', PyNum 5)]) = [PyNum 5, PyNum 0]"
proof (intro conjI impI)
  assume ne: "schema \<noteq> []"
  then show "features_7d schema humidity temperature hour day month day_of_week cur lag ma =
        map (\<lambda>name. (name, dict_get (feature_values_7d humidity temperature hour day month
                                        day_of_week cur lag ma) name (PyNum 0)))
          (first_occurrences schema)"
    by (simp add: features_7d_def features_for_schema_first)
  from ne show "features_pm10 schema ts humidity c temperature hour day month day_of_week
          l1 l3 l6 l24 r6 r24 ewm =
        map (\<lambda>name. (name, dict_get (feature_values_pm10 ts humidity c temperature hour day month
                                        day_of_week l1 l3 l6 l24 r6 r24 ewm) name (PyNum 0)))
          (first_occurrences schema)"
    by (simp add: features_pm10_def features_for_schema_first)
next
  show "set (first_occurrences schema) = set schema" by (rule first_occurrences_props)
  show "distinct (first_occurrences schema)" by (rule first_occurrences_props)
next
  assume "distinct schema"
  then show "first_occurrences schema = schema" by (rule first_occurrences_props)
next
  assume "map_of vals name = Some v"
  then show "dict_get vals name (PyNum 0) = v" by (simp add: dict_get_def)
next
  assume "map_of vals name = None"
  then show "dict_get vals name (PyNum 0) = PyNum 0" by (simp add: dict_get_def)
next
  show "map snd (features_for_schema [''a'', ''b''] [(''a'', PyNum 5)]) = [PyNum 5, PyNum 0]"
    by (simp add: features_for_schema_first first_occurrences_def dict_get_def)
  show "map snd (features_for_schema [''a'', ''b'', ''a''] [(''a'', PyNum 5)])
          = [PyNum 5, PyNum 0]"
    by (simp add: features_for_schema_first first_occurrences_def dict_get_def)
qed

theorem feature_vector_builder_witness:
  "[''pm_2_5'', ''pm25_lag1h'', ''pm_2_5'', ''wind''] \<noteq> []
   \<and> features_7d [''pm_2_5'', ''pm25_lag1h'', ''pm_2_5'', ''wind''] 60 25 12 5 1 4 20 21 22 =
       [(''pm_2_5'', PyNum 20), (''pm25_lag1h'', PyNum 21), (''wind'', PyNum 0)]
   \<and> distinct [''pm_2_5'', ''wind'']
   \<and> first_occurrences [''pm_2_5'', ''wind''] = [''pm_2_5'', ''wind'']
   \<and> map_of [(''a'', PyNum 5)] ''a'' = Some (PyNum 5)
   \<and> dict_get [(''a'', PyNum 5)] ''a'' (PyNum 0) = PyNum 5
   \<and> map_of [(''a'', PyNum 5)] ''b'' = None
   \<and> dict_get [(''a'', PyNum 5)] ''b'' (PyNum 0) = PyNum 0"
  using feature_vector_builder
    [where schema = "[''pm_2_5'', ''pm25_lag1h'', ''pm_2_5'', ''wind'']" and humidity = 60
       and temperature = 25 and hour = 12 and day = 5 and month = 1 and day_of_week = 4
       and cur = 20 and lag = 21 and ma = 22
       and vals = "[(''a'', PyNum 5)]" and name = "''a''" and v = "PyNum 5"]
    feature_vector_builder [where schema = "[''pm_2_5'', ''wind'']"
       and vals = "[(''a'', PyNum 5)]" and name = "''b''"]
  by (simp add: feature_values_7d_def dict_get_def first_occurrences_def)

subsection \<open>The 7-day loop\<close>

lemma for_range_append:
  "for_range body (xs @ ys) s =
     (case for_range body xs s of Inl e \<Rightarrow> Inl e | Inr u \<Rightarrow> for_range body ys u)"
  by (induction xs arbitrary: s) (simp_all split: sum.splits)

lemma for_range_cong:
  "(\<And>i s. i \<in> set ks \<Longrightarrow> body1 i s = body2 i s) \<Longrightarrow>
   for_range body1 ks s = for_range body2 ks s"
  by (induction ks arbitrary: s) (simp_all split: sum.splits)

lemma for_range_total:
  "(\<And>i s. i \<in> set ks \<Longrightarrow> \<exists>s'. body i s = Inr s') \<Longrightarrow> \<exists>t. for_range body ks s = Inr t"
proof (induction ks arbitrary: s)
  case Nil
  show ?case by simp
next
  case (Cons k ks)
  from Cons.prems [of k s] obtain s' where "body k s = Inr s'" by auto
  moreover from Cons.IH [of s'] Cons.prems obtain t where "for_range body ks s' = Inr t"
    by auto
  ultimately show ?case by simp
qed

lemma forecast_day_Inr:
  assumes "forecast_day model schema draws humidity temperature d0 k s = Inr s'"
  shows "\<exists>pd base.
           add_days d0 (int k) = Inr pd
         \<and> model (features_7d schema humidity temperature 12 (date_day pd) (date_month pd)
                    (weekday pd) (pm25_current s) (pm25_lag1d s) (pm25_ma3d s)) = Inr base
         \<and> s' = LoopState
                  (py_round2 (base * weekday_factor (weekday pd) * weather_factor k
                              * random_factor (draws k)))
                  (pm25_current s)
                  ((pm25_ma3d s + pm25_current s
                    + py_round2 (base * weekday_factor (weekday pd) * weather_factor k
                                 * random_factor (draws k))) / 3)
                  (predictions s
                   @ [py_round2 (base * weekday_factor (weekday pd) * weather_factor k
                                 * random_factor (draws k))])
                  (dates s @ [pd])"
  using assms
  by (auto simp: forecast_day_def np_mean_def Let_def split: sum.splits)

lemma for_range_forecast_appends:
  "for_range (forecast_day model schema draws humidity temperature d0) ks s = Inr t \<Longrightarrow>
   \<exists>zs ws. predictions t = predictions s @ zs \<and> length zs = length ks
          \<and> dates t = dates s @ ws \<and> length ws = length ks"
proof (induction ks arbitrary: s)
  case Nil
  then show ?case by simp
next
  case (Cons k ks)
  from Cons.prems obtain u where
    u: "forecast_day model schema draws humidity temperature d0 k s = Inr u"
    and t: "for_range (forecast_day model schema draws humidity temperature d0) ks u = Inr t"
    by (auto split: sum.splits)
  from forecast_day_Inr [OF u] obtain x d where
    pu: "predictions u = predictions s @ [x]" and du: "dates u = dates s @ [d]"
    by auto
  from Cons.IH [OF t] obtain zs ws where
    "predictions t = predictions u @ zs" "length zs = length ks"
    "dates t = dates u @ ws" "length ws = length ks"
    by blast
  with pu du have "predictions t = predictions s @ (x # zs) \<and> length (x # zs) = length (k # ks)
      \<and> dates t = dates s @ (d # ws) \<and> length (d # ws) = length (k # ks)"
    by simp
  then show ?case by blast
qed

lemma update_7day_Forecast:
  assumes "update_7day_prediction model schema draws n_clicks humidity temperature sd a b c
             = Inr (Forecast preds ds)"
  shows "\<exists>l1 l2 l3 d0 sf.
           0 < n_clicks \<and> a = Some l1 \<and> b = Some l2 \<and> c = Some l3 \<and> strptime sd = Inr d0
         \<and> for_range (forecast_day model schema draws humidity temperature d0) [0..<7]
               (LoopState l1 l2 ((l1 + l2 + l3) / 3) [] []) = Inr sf
         \<and> predictions sf = preds \<and> dates sf = ds"
  using assms
  by (auto simp: update_7day_prediction_def np_mean_def add.assoc
      split: if_splits sum.splits option.splits)

lemma loop_step:
  assumes run: "for_range (forecast_day model schema draws humidity temperature d0) [0..<7]
                  (LoopState l1 l2 ma [] []) = Inr sf"
    and k: "k < 7"
  shows "\<exists>s s' pd base.
           for_range (forecast_day model schema draws humidity temperature d0) [0..<k]
             (LoopState l1 l2 ma [] []) = Inr s
         \<and> for_range (forecast_day model schema draws humidity temperature d0) [0..<Suc k]
             (LoopState l1 l2 ma [] []) = Inr s'
         \<and> forecast_day model schema draws humidity temperature d0 k s = Inr s'
         \<and> add_days d0 (int k) = Inr pd
         \<and> model (features_7d schema humidity temperature 12 (date_day pd) (date_month pd)
                    (weekday pd) (pm25_current s) (pm25_lag1d s) (pm25_ma3d s)) = Inr base
         \<and> predictions sf ! k
             = py_round2 (base * weekday_factor (weekday pd) * weather_factor k
                          * random_factor (draws k))
         \<and> dates sf ! k = pd
         \<and> pm25_current s' = predictions sf ! k
         \<and> pm25_lag1d s' = pm25_current s
         \<and> pm25_ma3d s' = (pm25_ma3d s + pm25_lag1d s' + pm25_current s') / 3
         \<and> length (predictions sf) = 7 \<and> length (dates sf) = 7"
proof -
  let ?body = "forecast_day model schema draws humidity temperature d0"
  let ?init = "LoopState l1 l2 ma [] []"
  have split: "[0..<7] = [0..<k] @ [k] @ [Suc k..<7]"
    using k by (metis append_Cons append_Nil le_add2 less_imp_le_nat upt_add_eq_append
        upt_conv_Cons less_eq_nat.simps(1) le_add_diff_inverse plus_nat.add_0)
  from run obtain s where s: "for_range ?body [0..<k] ?init = Inr s"
    and rest: "for_range ?body ([k] @ [Suc k..<7]) s = Inr sf"
    unfolding split for_range_append [of ?body "[0..<k]"] by (auto split: sum.splits)
  from rest obtain s' where s': "?body k s = Inr s'"
    and tail: "for_range ?body [Suc k..<7] s' = Inr sf"
    by (auto split: sum.splits)
  have upto: "for_range ?body [0..<Suc k] ?init = Inr s'"
    using s s' by (simp add: for_range_append)
  from for_range_forecast_appends [OF s] obtain zs ws where
    ps: "predictions s = zs" "length zs = k" "dates s = ws" "length ws = k"
    by auto
  from forecast_day_Inr [OF s'] obtain pd base where
    pd: "add_days d0 (int k) = Inr pd"
    and base: "model (features_7d schema humidity temperature 12 (date_day pd) (date_month pd)
                 (weekday pd) (pm25_current s) (pm25_lag1d s) (pm25_ma3d s)) = Inr base"
    and s'_eq: "s' = LoopState
                  (py_round2 (base * weekday_factor (weekday pd) * weather_factor k
                              * random_factor (draws k)))
                  (pm25_current s)
                  ((pm25_ma3d s + pm25_current s
                    + py_round2 (base * weekday_factor (weekday pd) * weather_factor k
                                 * random_factor (draws k))) / 3)
                  (predictions s
                   @ [py_round2 (base * weekday_factor (weekday pd) * weather_factor k
                                 * random_factor (draws k))])
                  (dates s @ [pd])"
    by blast
  from for_range_forecast_appends [OF tail] obtain zs' ws' where
    pf: "predictions sf = predictions s' @ zs'" "length zs' = length [Suc k..<7]"
        "dates sf = dates s' @ ws'" "length ws' = length [Suc k..<7]"
    by blast
  have nth_p: "predictions sf ! k
      = py_round2 (base * weekday_factor (weekday pd) * weather_factor k
                   * random_factor (draws k))"
    using pf(1) ps by (simp add: s'_eq nth_append)
  have nth_d: "dates sf ! k = pd"
    using pf(3) ps by (simp add: s'_eq nth_append)
  have len: "length (predictions sf) = 7 \<and> length (dates sf) = 7"
    using pf ps k by (simp add: s'_eq)
  show ?thesis
    using s upto s' pd base nth_p nth_d len by (intro exI [of _ s] exI [of _ s'] exI [of _ pd]
        exI [of _ base]) (simp add: s'_eq)
qed

lemma np_mean3: "np_mean [Some x, Some y, Some z] = Inr ((x + y + z) / 3)"
  by (simp add: np_mean_def add.assoc)

lemma strptime_2024_01_05: "strptime (Some ''2024-01-05'') = Inr (Date 2024 1 5)"
  by (simp add: strptime_def digit_val_def days_in_month_def is_leap_def DAYS_IN_MONTH_def)

lemma toordinal_2024_01_05: "toordinal (Date 2024 1 5) = 738890"
  by (simp add: toordinal_def ymd2ord_def days_before_year_def days_before_month_def
      is_leap_def DAYS_BEFORE_MONTH_def)

lemma add_days_2024_01_05:
  "k < 7 \<Longrightarrow> \<exists>pd. add_days (Date 2024 1 5) (int k) = Inr pd"
  by (simp add: add_days_def toordinal_2024_01_05 MAXORDINAL_def)

lemma add_days_2024_01_05_0: "add_days (Date 2024 1 5) 0 = Inr (Date 2024 1 5)"
  by (simp add: add_days_def toordinal_2024_01_05 MAXORDINAL_def ord2ymd_def ord2md_def
      DAYS_BEFORE_MONTH_def DAYS_IN_MONTH_def)



lemma weekday_2024_01_05: "weekday (Date 2024 1 5) = 4"
  by (simp add: weekday_def toordinal_2024_01_05)



lemma forecast_day_total:
  assumes "add_days d0 (int k) = Inr pd" and "\<And>f. \<exists>y. model f = Inr y"
  shows "\<exists>s'. forecast_day model schema draws humidity temperature d0 k s = Inr s'"
proof -
  from assms(2) obtain y where
    "model (features_7d schema humidity temperature 12 (date_day pd) (date_month pd)
              (weekday pd) (pm25_current s) (pm25_lag1d s) (pm25_ma3d s)) = Inr y"
    by blast
  with assms(1) show ?thesis
    by (simp add: forecast_day_def np_mean_def Let_def)
qed

lemma demo_run:
  "\<exists>preds ds. update_7day_prediction (\<lambda>f. Inr 20) [] (\<lambda>i. 1/2) 1 60 25 (Some ''2024-01-05'')
                 (Some 20) (Some 20) (Some 20) = Inr (Forecast preds ds)"
proof -
  have "\<exists>t. for_range (forecast_day (\<lambda>f. Inr 20) [] (\<lambda>i. 1/2) 60 25 (Date 2024 1 5)) [0..<7]
               (LoopState 20 20 20 [] []) = Inr t"
  proof (rule for_range_total)
    fix i s
    assume "i \<in> set [0..<7]"
    then have "i < 7" by simp
    from add_days_2024_01_05 [OF this] obtain pd where
      "add_days (Date 2024 1 5) (int i) = Inr pd" ..
    then show "\<exists>s'. forecast_day (\<lambda>f. Inr 20) [] (\<lambda>i. 1/2) 60 25 (Date 2024 1 5) i s = Inr s'"
      by (rule forecast_day_total) simp
  qed
  then obtain t where
    "for_range (forecast_day (\<lambda>f. Inr 20) [] (\<lambda>i. 1/2) 60 25 (Date 2024 1 5)) [0..<7]
       (LoopState 20 20 20 [] []) = Inr t" ..
  then show ?thesis
    by (simp add: update_7day_prediction_def strptime_2024_01_05 np_mean_def)
qed

lemma first_step_example:
  "forecast_day (\<lambda>f. Inr 40) [] (\<lambda>i. 1/2) 60 25 (Date 2024 1 5) 0 (LoopState 10 20 30 [] [])
     = Inr (LoopState 40 10 (80 / 3) [40] [Date 2024 1 5])"
  using add_days_2024_01_05_0
  by (simp add: forecast_day_def weekday_2024_01_05 weekday_factor_def weather_factor_def
      weather_phase_def random_factor_def py_round2_def round_half_even_def np_mean_def)

text \<open>
  Claim C1. A run of the 7-day callback that returns a forecast is the loop of seven steps
  started in the state \<open>current = lag1\<close>, \<open>previousLag = lag2\<close>,
  \<open>movingAverage = mean (lag1, lag2, lag3)\<close>. Step \<open>k\<close> takes the state \<open>s\<close> reached after the
  steps before it to the state \<open>s'\<close> with \<open>previousLag = current s\<close>, \<open>current\<close> the value
  emitted at step \<open>k\<close>, and \<open>movingAverage\<close> the mean of the previous moving average, the new
  \<open>previousLag\<close> and the new \<open>current\<close>. This is not the mean of the three newest values:
  from the lags 10, 20, 60 (mean 30) and an emitted value 40 the new moving average is the
  mean of 30, 10, 40 and not the mean of 20, 10, 40.
\<close>

theorem forecast_loop_state:
  assumes "update_7day_prediction model schema draws n_clicks humidity temperature sd a b c
             = Inr (Forecast preds ds)"
    and "k < 7"
  shows "(\<exists>l1 l2 l3 d0 ma0 sf s s'.
           a = Some l1 \<and> b = Some l2 \<and> c = Some l3 \<and> strptime sd = Inr d0
         \<and> np_mean [Some l1, Some l2, Some l3] = Inr ma0
         \<and> for_range (forecast_day model schema draws humidity temperature d0) [0..<7]
             (LoopState l1 l2 ma0 [] []) = Inr sf
         \<and> predictions sf = preds
         \<and> for_range (forecast_day model schema draws humidity temperature d0) [0..<k]
             (LoopState l1 l2 ma0 [] []) = Inr s
         \<and> forecast_day model schema draws humidity temperature d0 k s = Inr s'
         \<and> pm25_lag1d s' = pm25_current s
         \<and> pm25_current s' = preds ! k
         \<and> np_mean [Some (pm25_ma3d s), Some (pm25_lag1d s'), Some (pm25_current s')]
             = Inr (pm25_ma3d s'))
       \<and> (\<exists>s1. forecast_day (\<lambda>f. Inr 40) [] (\<lambda>i. 1/2) 60 25 (Date 2024 1 5) 0
                  (LoopState 10 20 30 [] []) = Inr s1
              \<and> np_mean [Some 10, Some 20, Some 60] = Inr 30
              \<and> pm25_lag1d s1 = 10 \<and> pm25_current s1 = 40
              \<and> np_mean [Some 30, Some 10, Some 40] = Inr (pm25_ma3d s1)
              \<and> np_mean [Some 20, Some 10, Some 40] \<noteq> Inr (pm25_ma3d s1))"
proof
  from update_7day_Forecast [OF assms(1)] obtain l1 l2 l3 d0 sf where
    in_ok: "a = Some l1" "b = Some l2" "c = Some l3" "strptime sd = Inr d0"
    and run: "for_range (forecast_day model schema draws humidity temperature d0) [0..<7]
               (LoopState l1 l2 ((l1 + l2 + l3) / 3) [] []) = Inr sf"
    and out: "predictions sf = preds"
    by blast
  from loop_step [OF run assms(2)] obtain s s' where
    s: "for_range (forecast_day model schema draws humidity temperature d0) [0..<k]
          (LoopState l1 l2 ((l1 + l2 + l3) / 3) [] []) = Inr s"
    and s': "forecast_day model schema draws humidity temperature d0 k s = Inr s'"
    and upd: "pm25_current s' = predictions sf ! k" "pm25_lag1d s' = pm25_current s"
      "pm25_ma3d s' = (pm25_ma3d s + pm25_lag1d s' + pm25_current s') / 3"
    by blast
  have ma0: "np_mean [Some l1, Some l2, Some l3] = Inr ((l1 + l2 + l3) / 3)"
    by (rule np_mean3)
  have ma: "np_mean [Some (pm25_ma3d s), Some (pm25_lag1d s'), Some (pm25_current s')]
              = Inr (pm25_ma3d s')"
    by (simp only: np_mean3 upd(3))
  from upd(1) out have cur: "pm25_current s' = preds ! k" by simp
  show "\<exists>l1 l2 l3 d0 ma0 sf s s'.
           a = Some l1 \<and> b = Some l2 \<and> c = Some l3 \<and> strptime sd = Inr d0
         \<and> np_mean [Some l1, Some l2, Some l3] = Inr ma0
         \<and> for_range (forecast_day model schema draws humidity temperature d0) [0..<7]
             (LoopState l1 l2 ma0 [] []) = Inr sf
         \<and> predictions sf = preds
         \<and> for_range (forecast_day model schema draws humidity temperature d0) [0..<k]
             (LoopState l1 l2 ma0 [] []) = Inr s
         \<and> forecast_day model schema draws humidity temperature d0 k s = Inr s'
         \<and> pm25_lag1d s' = pm25_current s
         \<and> pm25_current s' = preds ! k
         \<and> np_mean [Some (pm25_ma3d s), Some (pm25_lag1d s'), Some (pm25_current s')]
             = Inr (pm25_ma3d s')"
    using in_ok ma0 run out s s' upd(2) cur ma by blast
next
  show "\<exists>s1. forecast_day (\<lambda>f. Inr 40) [] (\<lambda>i. 1/2) 60 25 (Date 2024 1 5) 0
                  (LoopState 10 20 30 [] []) = Inr s1
              \<and> np_mean [Some 10, Some 20, Some 60] = Inr 30
              \<and> pm25_lag1d s1 = 10 \<and> pm25_current s1 = 40
              \<and> np_mean [Some 30, Some 10, Some 40] = Inr (pm25_ma3d s1)
              \<and> np_mean [Some 20, Some 10, Some 40] \<noteq> Inr (pm25_ma3d s1)"
    by (simp add: first_step_example np_mean_def)
qed

theorem forecast_loop_state_witness:
  "\<exists>preds ds.
      update_7day_prediction (\<lambda>f. Inr 20) [] (\<lambda>i. 1/2) 1 60 25 (Some ''2024-01-05'')
        (Some 20) (Some 20) (Some 20) = Inr (Forecast preds ds)
    \<and> (1::nat) < 7
    \<and> (\<exists>s s'. for_range (forecast_day (\<lambda>f. Inr 20) [] (\<lambda>i. 1/2) 60 25 (Date 2024 1 5)) [0..<1]
                  (LoopState 20 20 20 [] []) = Inr s
             \<and> forecast_day (\<lambda>f. Inr 20) [] (\<lambda>i. 1/2) 60 25 (Date 2024 1 5) 1 s = Inr s'
             \<and> pm25_lag1d s' = pm25_current s
             \<and> pm25_current s' = preds ! 1
             \<and> np_mean [Some (pm25_ma3d s), Some (pm25_lag1d s'), Some (pm25_current s')]
                 = Inr (pm25_ma3d s'))"
proof -
  from demo_run obtain preds ds where
    run: "update_7day_prediction (\<lambda>f. Inr 20) [] (\<lambda>i. 1/2) 1 60 25 (Some ''2024-01-05'')
            (Some 20) (Some 20) (Some 20) = Inr (Forecast preds ds)"
    by blast
  have k: "(1::nat) < 7" by simp
  from forecast_loop_state [OF run k] obtain l1 l2 l3 d0 ma0 s s' where
    in_ok: "Some (20::real) = Some l1" "Some (20::real) = Some l2" "Some (20::real) = Some l3"
      "strptime (Some ''2024-01-05'') = Inr d0"
      "np_mean [Some l1, Some l2, Some l3] = Inr ma0"
    and s: "for_range (forecast_day (\<lambda>f. Inr 20) [] (\<lambda>i. 1/2) 60 25 d0) [0..<1]
              (LoopState l1 l2 ma0 [] []) = Inr s"
    and s': "forecast_day (\<lambda>f. Inr 20) [] (\<lambda>i. 1/2) 60 25 d0 1 s = Inr s'"
    and upd: "pm25_lag1d s' = pm25_current s" "pm25_current s' = preds ! 1"
      "np_mean [Some (pm25_ma3d s), Some (pm25_lag1d s'), Some (pm25_current s')]
         = Inr (pm25_ma3d s')"
    by blast
  from in_ok have eqs: "l1 = 20" "l2 = 20" "l3 = 20" "d0 = Date 2024 1 5"
    by (simp_all add: strptime_2024_01_05)
  from in_ok(5) have ma0: "ma0 = 20" by (simp add: eqs np_mean_def)
  from s s' have "for_range (forecast_day (\<lambda>f. Inr 20) [] (\<lambda>i. 1/2) 60 25 (Date 2024 1 5))
                    [0..<1] (LoopState 20 20 20 [] []) = Inr s
      \<and> forecast_day (\<lambda>f. Inr 20) [] (\<lambda>i. 1/2) 60 25 (Date 2024 1 5) 1 s = Inr s'"
    by (simp only: eqs ma0)
  with upd have "\<exists>s s'. for_range (forecast_day (\<lambda>f. Inr 20) [] (\<lambda>i. 1/2) 60 25 (Date 2024 1 5))
                  [0..<1] (LoopState 20 20 20 [] []) = Inr s
             \<and> forecast_day (\<lambda>f. Inr 20) [] (\<lambda>i. 1/2) 60 25 (Date 2024 1 5) 1 s = Inr s'
             \<and> pm25_lag1d s' = pm25_current s
             \<and> pm25_current s' = preds ! 1
             \<and> np_mean [Some (pm25_ma3d s), Some (pm25_lag1d s'), Some (pm25_current s')]
                 = Inr (pm25_ma3d s')"
    by blast
  with run k show ?thesis by blast
qed




lemma forecast_day_draws_cong:
  assumes "draws1 k = draws2 k"
  shows "forecast_day model schema draws1 humidity temperature d0 k s =
         forecast_day model schema draws2 humidity temperature d0 k s"
  unfolding forecast_day_def assms ..

lemma update_7day_draws_cong:
  assumes "\<And>k. k < 7 \<Longrightarrow> draws1 k = draws2 k"
  shows "update_7day_prediction model schema draws1 n_clicks humidity temperature sd a b c =
         update_7day_prediction model schema draws2 n_clicks humidity temperature sd a b c"
proof -
  have loop: "for_range (forecast_day model schema draws1 humidity temperature d0) [0..<7] s =
        for_range (forecast_day model schema draws2 humidity temperature d0) [0..<7] s"
    for d0 s
  proof (rule for_range_cong)
    fix k t
    assume "k \<in> set [0..<7]"
    then have "draws1 k = draws2 k" by (simp add: assms)
    then show "forecast_day model schema draws1 humidity temperature d0 k t =
               forecast_day model schema draws2 humidity temperature d0 k t"
      by (rule forecast_day_draws_cong)
  qed
  show ?thesis unfolding update_7day_prediction_def loop ..
qed


lemma update_7day_length:
  assumes "update_7day_prediction model schema draws n_clicks humidity temperature sd a b c
             = Inr (Forecast preds ds)"
  shows "length preds = 7"
proof -
  from update_7day_Forecast [OF assms] obtain l1 l2 l3 d0 sf where
    run: "for_range (forecast_day model schema draws humidity temperature d0) [0..<7]
               (LoopState l1 l2 ((l1 + l2 + l3) / 3) [] []) = Inr sf"
    and out: "predictions sf = preds"
    by blast
  from loop_step [OF run, of 0] out show ?thesis by auto
qed

text \<open>
  Claim C6. With every draw of a run fixed at \<open>U = 0.5\<close> the noise factor is exactly 1, and
  two runs of the 7-day callback with the same predictor and the same inputs (start date,
  humidity, temperature, the three lag values) give the same result, whatever the random
  sources deliver past the seven draws of the loop. A run that returns a forecast returns
  seven values.
\<close>

theorem forecast_deterministic:
  assumes "\<forall>k<7. draws1 k = 1/2 \<and> draws2 k = 1/2"
  shows "update_7day_prediction model schema draws1 n_clicks humidity temperature sd a b c =
         update_7day_prediction model schema draws2 n_clicks humidity temperature sd a b c
       \<and> random_factor (1/2) = 1
       \<and> (\<forall>preds ds.
            update_7day_prediction model schema draws1 n_clicks humidity temperature sd a b c
              = Inr (Forecast preds ds) \<longrightarrow> length preds = 7)"
proof (intro conjI allI impI)
  show "update_7day_prediction model schema draws1 n_clicks humidity temperature sd a b c =
        update_7day_prediction model schema draws2 n_clicks humidity temperature sd a b c"
    by (rule update_7day_draws_cong) (simp add: assms)
  show "random_factor (1/2) = 1" by (simp add: random_factor_def)
next
  fix preds ds
  assume "update_7day_prediction model schema draws1 n_clicks humidity temperature sd a b c
            = Inr (Forecast preds ds)"
  then show "length preds = 7" by (rule update_7day_length)
qed

theorem forecast_deterministic_witness:
  "(if (6::nat) < 7 then 1/2 else 1) = (1/2 :: real)
   \<and> (if (7::nat) < 7 then 1/2 else 1) = (1 :: real)
   \<and> update_7day_prediction (\<lambda>f. Inr 20) [] (\<lambda>i. 1/2) 1 60 25 (Some ''2024-01-05'')
       (Some 20) (Some 20) (Some 20)
     = update_7day_prediction (\<lambda>f. Inr 20) [] (\<lambda>i. if i < 7 then 1/2 else 1) 1 60 25
         (Some ''2024-01-05'') (Some 20) (Some 20) (Some 20)
   \<and> (\<exists>preds ds. update_7day_prediction (\<lambda>f. Inr 20) [] (\<lambda>i. 1/2) 1 60 25
         (Some ''2024-01-05'') (Some 20) (Some 20) (Some 20) = Inr (Forecast preds ds)
         \<and> length preds = 7)"
proof -
  have h: "\<forall>k<7. (\<lambda>i::nat. 1/2 :: real) k = 1/2 \<and> (\<lambda>i. if i < 7 then 1/2 else 1) k = 1/2"
    by simp
  note det = forecast_deterministic [OF h, where model = "\<lambda>f. Inr 20" and schema = "[]"
      and n_clicks = 1 and humidity = 60 and temperature = 25 and sd = "Some ''2024-01-05''"
      and a = "Some 20" and b = "Some 20" and c = "Some 20"]
  from demo_run obtain preds ds where
    run: "update_7day_prediction (\<lambda>f. Inr 20) [] (\<lambda>i. 1/2) 1 60 25 (Some ''2024-01-05'')
            (Some 20) (Some 20) (Some 20) = Inr (Forecast preds ds)"
    by blast
  from det run have len: "length preds = 7" by blast
  from det have eq: "update_7day_prediction (\<lambda>f. Inr 20) [] (\<lambda>i. 1/2) 1 60 25
       (Some ''2024-01-05'') (Some 20) (Some 20) (Some 20)
     = update_7day_prediction (\<lambda>f. Inr 20) [] (\<lambda>i. if i < 7 then 1/2 else 1) 1 60 25
         (Some ''2024-01-05'') (Some 20) (Some 20) (Some 20)"
    by (rule conjunct1)
  from run len have ex: "\<exists>preds ds. update_7day_prediction (\<lambda>f. Inr 20) [] (\<lambda>i. 1/2) 1 60 25
         (Some ''2024-01-05'') (Some 20) (Some 20) (Some 20) = Inr (Forecast preds ds)
         \<and> length preds = 7"
    by blast
  from eq ex show ?thesis by simp
qed

text \<open>
  Claim C5. The PM10 callback runs inside \<^verbatim>\<open>try\<close>/\<^verbatim>\<open>except Exception\<close>: an exception of the
  feature assembly (here a missing current value) or of the predictor becomes the error
  result and no curve is returned. The 7-day callback has no handler: with the same kind
  of input (a missing lag value, or a predictor that raises) the exception leaves the
  callback, so no error result is produced on that track.
\<close>

theorem prediction_failure_escapes_7day:
  "update_7day_prediction model schema draws 1 60 25 (Some ''2024-01-05'')
     None (Some 20) (Some 20) = Inl TypeError
   \<and> update_pm10_prediction True model schema 1 60 25 (Some ''2024-01-05'') 7
       None (Some 28) (Some 25) (Some 22) (Some 28) = PredictionError TypeError
   \<and> update_7day_prediction (\<lambda>f. Inl PredictError) [] draws 1 60 25 (Some ''2024-01-05'')
       (Some 20) (Some 20) (Some 20) = Inl PredictError
   \<and> update_pm10_prediction True (\<lambda>f. Inl PredictError) [] 1 60 25 (Some ''2024-01-05'') 7
       (Some 30) (Some 28) (Some 25) (Some 22) (Some 28) = PredictionError PredictError"
proof (intro conjI)
  show "update_7day_prediction model schema draws 1 60 25 (Some ''2024-01-05'')
     None (Some 20) (Some 20) = Inl TypeError"
    by (simp add: update_7day_prediction_def strptime_2024_01_05 np_mean_def)
  show "update_pm10_prediction True model schema 1 60 25 (Some ''2024-01-05'') 7
       None (Some 28) (Some 25) (Some 22) (Some 28) = PredictionError TypeError"
    by (simp add: update_pm10_prediction_def pm10_try_block_def strptime_2024_01_05 np_mean_def)
  from add_days_2024_01_05 [of 0] obtain pd where
    pd: "add_days (Date 2024 1 5) (int 0) = Inr pd" by auto
  have step: "forecast_day (\<lambda>f. Inl PredictError) [] draws 60 25 (Date 2024 1 5) 0 s
               = Inl PredictError" for s
    using pd by (simp add: forecast_day_def)
  have upt: "[0..<7] = 0 # [1..<7]" by (simp add: upt_conv_Cons)
  have "for_range (forecast_day (\<lambda>f. Inl PredictError) [] draws 60 25 (Date 2024 1 5))
          [0..<7] s = Inl PredictError" for s
    unfolding upt by (simp add: step)
  then show "update_7day_prediction (\<lambda>f. Inl PredictError) [] draws 1 60 25
       (Some ''2024-01-05'') (Some 20) (Some 20) (Some 20) = Inl PredictError"
    by (simp add: update_7day_prediction_def strptime_2024_01_05 np_mean_def)
  show "update_pm10_prediction True (\<lambda>f. Inl PredictError) [] 1 60 25 (Some ''2024-01-05'') 7
       (Some 30) (Some 28) (Some 25) (Some 22) (Some 28) = PredictionError PredictError"
    by (simp add: update_pm10_prediction_def pm10_try_block_def strptime_2024_01_05 np_mean_def
        np_average_def features_pm10_def)
qed

end
